theory Spec2Isabelle
  imports Complex_Main
begin

section \<open>Python values\<close>

text \<open>
  A Python \<open>str\<close> is a sequence of Unicode code points and \<open>len\<close> counts code points,
  so a string is modelled as the list of its code points. The status messages of
  \<open>main.py\<close> contain symbols outside ASCII; they are given by their code points.
\<close>

type_synonym pystr = "nat list"

definition ascii :: "string \<Rightarrow> pystr" where
  "ascii s = map of_char s"

definition NL :: pystr where \<comment> \<open>the escape \<open>\n\<close>\<close>
  "NL = [10]"

definition QUOTE :: pystr where \<comment> \<open>a single quote inside a literal\<close>
  "QUOTE = [39]"

definition CROSS_MARK :: pystr where \<comment> \<open>U+274C\<close>
  "CROSS_MARK = [10060]"

definition CHECK_MARK :: pystr where \<comment> \<open>U+2705\<close>
  "CHECK_MARK = [9989]"

definition HOURGLASS :: pystr where \<comment> \<open>U+23F3\<close>
  "HOURGLASS = [9203]"

definition PAGE_FACING_UP :: pystr where \<comment> \<open>U+1F4C4\<close>
  "PAGE_FACING_UP = [128196]"

definition BAR_CHART :: pystr where \<comment> \<open>U+1F4CA\<close>
  "BAR_CHART = [128202]"

text \<open>\<open>str(n)\<close> for a non-negative integer, as an f-string renders \<open>{idx}\<close> or \<open>{len(text)}\<close>.\<close>

fun str_nat :: "nat \<Rightarrow> pystr" where
  "str_nat n = (if n < 10 then [48 + n] else str_nat (n div 10) @ [48 + n mod 10])"

declare str_nat.simps [simp del]

text \<open>\<open>s.replace(old, new)\<close> where \<open>old\<close> and \<open>new\<close> are single characters.\<close>

definition replace_char :: "nat \<Rightarrow> nat \<Rightarrow> pystr \<Rightarrow> pystr" where
  "replace_char old new s = map (\<lambda>c. if c = old then new else c) s"

text \<open>\<open>str.strip()\<close> removes the characters for which \<open>str.isspace\<close> holds at both ends.\<close>

definition isspace :: "nat \<Rightarrow> bool" where
  "isspace c \<longleftrightarrow>
     (9 \<le> c \<and> c \<le> 13) \<or> (28 \<le> c \<and> c \<le> 32) \<or> c = 133 \<or> c = 160 \<or> c = 5760 \<or>
     (8192 \<le> c \<and> c \<le> 8202) \<or> c = 8232 \<or> c = 8233 \<or> c = 8239 \<or> c = 8287 \<or> c = 12288"

definition strip :: "pystr \<Rightarrow> pystr" where
  "strip s = rev (dropWhile isspace (rev (dropWhile isspace s)))"

text \<open>
  Values as \<open>json.loads\<close> and the search SDK hand them over. A \<open>dict\<close> is the list of
  its items in insertion order (keys distinct); a float is modelled by its numeric value.
\<close>

datatype pyval =
    PNone
  | PBool bool
  | PInt int
  | PFloat real
  | PStr pystr
  | PList "pyval list"
  | PDict "(pystr \<times> pyval) list"

text \<open>
  Exceptions. Every handler of the repository is \<open>except Exception\<close>, and every error of
  the libraries it calls derives from \<open>Exception\<close>; \<open>LibraryError cls msg\<close> stands for
  such an error of class \<open>cls\<close> whose \<open>str\<close> is \<open>msg\<close>. A raising computation is a value of
  \<open>pyexn + 'a\<close>, \<open>Inl\<close> the exception raised.
\<close>

datatype pyexn =
    Exception pystr
  | ValueError pystr
  | TypeError pystr
  | AttributeError pystr
  | KeyError pystr
  | LibraryError pystr pystr

fun str_exn :: "pyexn \<Rightarrow> pystr" where
  "str_exn (Exception m) = m"
| "str_exn (ValueError m) = m"
| "str_exn (TypeError m) = m"
| "str_exn (AttributeError m) = m"
| "str_exn (KeyError k) = QUOTE @ k @ QUOTE" \<comment> \<open>the \<open>repr\<close> of the missing key\<close>
| "str_exn (LibraryError c m) = m"

text \<open>
  \<open>try: body except Exception as e: handler\<close>. A computation carries the list of calls to
  external services it has issued, in order; the handler issues none in this repository.
\<close>

definition try_except :: "(pyexn + 'a) \<times> 'c list \<Rightarrow> (pyexn \<Rightarrow> pyexn + 'a) \<Rightarrow> (pyexn + 'a) \<times> 'c list" where
  "try_except body handler = (case fst body of Inl e \<Rightarrow> (handler e, snd body) | Inr v \<Rightarrow> body)"

text \<open>\<open>d[k]\<close> on a dict.\<close>

definition getitem :: "(pystr \<times> pyval) list \<Rightarrow> pystr \<Rightarrow> pyexn + pyval" where
  "getitem d k = (case map_of d k of None \<Rightarrow> Inl (KeyError k) | Some v \<Rightarrow> Inr v)"

section \<open>Index client (azure\_search.py)\<close>

text \<open>The index schema handed to the SDK, field by field as \<open>create_index\<close> builds it.\<close>

datatype field_type = String | Int32 | DateTimeOffset | CollectionSingle

datatype index_field =
    SimpleField pystr field_type bool bool \<comment> \<open>name, type, key, filterable\<close>
  | SearchableField pystr field_type bool \<comment> \<open>name, type, filterable\<close>
  | SearchField pystr field_type bool int pystr \<comment> \<open>name, type, searchable, dimensions, profile\<close>

record hnsw_configuration =
  hnsw_name :: pystr
  hnsw_m :: int
  hnsw_efConstruction :: int
  hnsw_efSearch :: int
  hnsw_metric :: pystr

record vector_search_profile =
  profile_name :: pystr
  algorithm_configuration_name :: pystr

record vector_search =
  algorithms :: "hnsw_configuration list"
  profiles :: "vector_search_profile list"

record search_index =
  si_name :: pystr
  si_fields :: "index_field list"
  si_vector_search :: vector_search

text \<open>The document dict built per chunk by \<open>upload_documents\<close>.\<close>

record indexed_document =
  doc_id :: pystr
  content :: pystr
  source_file :: pystr
  chunk_index :: nat
  upload_date :: pystr
  content_vector :: pyval

record vector_query =
  vector :: pyval
  k_nearest_neighbors :: int
  query_fields :: pystr

record search_request =
  search_text :: "pystr option"
  vector_queries :: "vector_query list"
  select :: "pystr list"

text \<open>The item dict returned per hit by \<open>search_similar\<close>.\<close>

record search_hit =
  hit_content :: pyval
  hit_source :: pyval
  hit_chunk :: pyval
  hit_score :: pyval

text \<open>
  The client object: its index name, and the SDK operations it calls, each either raising
  or returning. \<open>index_client_create_or_update_index\<close> returns the \<open>name\<close> of the index the
  service reports; iterating the result of \<open>search_client_search\<close> yields a row dict or
  raises at each step. \<open>utcnow_isoformat\<close> is the reading of
  \<open>datetime.utcnow().isoformat()\<close> during the call.
\<close>

record azure_search_client =
  index_name :: pystr
  index_client_delete_index :: "pystr \<Rightarrow> pyexn + unit"
  index_client_create_or_update_index :: "search_index \<Rightarrow> pyexn + pystr"
  search_client_upload_documents :: "indexed_document list \<Rightarrow> pyexn + unit"
  search_client_search :: "search_request \<Rightarrow> pyexn + (pyexn + (pystr \<times> pyval) list) list"
  utcnow_isoformat :: pystr

datatype remote_call =
    DeleteIndexCall pystr
  | CreateOrUpdateIndexCall search_index
  | UploadDocumentsCall "indexed_document list"
  | SearchCall search_request

text \<open>
  The result dicts of the client: \<open>{'success': True, 'message'}\<close>,
  \<open>{'success': True, 'index_name', 'message'}\<close>,
  \<open>{'success': True, 'count', 'index_name', 'message'}\<close> and
  \<open>{'success': False, 'error'}\<close>.
\<close>

datatype op_result =
    Deleted pystr
  | Created pystr pystr
  | Uploaded nat pystr pystr
  | Failure pystr

definition delete_index_body :: "azure_search_client \<Rightarrow> (pyexn + op_result) \<times> remote_call list" where
  "delete_index_body self =
     (case index_client_delete_index self (index_name self) of
        Inl e \<Rightarrow> (Inl e, [DeleteIndexCall (index_name self)])
      | Inr _ \<Rightarrow>
          (Inr (Deleted (ascii ''Index '' @ QUOTE @ index_name self @ QUOTE @ ascii '' deleted successfully'')),
           [DeleteIndexCall (index_name self)]))"

definition delete_index :: "azure_search_client \<Rightarrow> (pyexn + op_result) \<times> remote_call list" where
  "delete_index self = try_except (delete_index_body self) (\<lambda>e. Inr (Failure (str_exn e)))"

definition index_definition :: "azure_search_client \<Rightarrow> int \<Rightarrow> search_index" where
  "index_definition self embedding_dim =
     \<lparr> si_name = index_name self,
       si_fields =
         [ SimpleField (ascii ''id'') String True False,
           SearchableField (ascii ''content'') String False,
           SearchableField (ascii ''source_file'') String True,
           SimpleField (ascii ''chunk_index'') Int32 False True,
           SimpleField (ascii ''upload_date'') DateTimeOffset False True,
           SearchField (ascii ''content_vector'') CollectionSingle True embedding_dim (ascii ''vector-profile'') ],
       si_vector_search =
         \<lparr> algorithms =
             [ \<lparr> hnsw_name = ascii ''hnsw-config'', hnsw_m = 4, hnsw_efConstruction = 400,
                 hnsw_efSearch = 500, hnsw_metric = ascii ''cosine'' \<rparr> ],
           profiles =
             [ \<lparr> profile_name = ascii ''vector-profile'',
                 algorithm_configuration_name = ascii ''hnsw-config'' \<rparr> ] \<rparr> \<rparr>"

definition create_index_body :: "azure_search_client \<Rightarrow> int \<Rightarrow> (pyexn + op_result) \<times> remote_call list" where
  "create_index_body self embedding_dim =
     (let index = index_definition self embedding_dim in
      case index_client_create_or_update_index self index of
        Inl e \<Rightarrow> (Inl e, [CreateOrUpdateIndexCall index])
      | Inr result_name \<Rightarrow>
          (Inr (Created result_name
                  (ascii ''Index '' @ QUOTE @ result_name @ QUOTE @ ascii '' created/updated successfully'')),
           [CreateOrUpdateIndexCall index]))"

definition create_index :: "azure_search_client \<Rightarrow> int \<Rightarrow> (pyexn + op_result) \<times> remote_call list" where
  "create_index self embedding_dim =
     try_except (create_index_body self embedding_dim) (\<lambda>e. Inr (Failure (str_exn e)))"

text \<open>The key of an Indexed Document: \<open>f"{source_file.replace('.', '_')}_{idx}"\<close>.\<close>

definition document_key :: "pystr \<Rightarrow> nat \<Rightarrow> pystr" where
  "document_key src idx = replace_char 46 95 src @ ascii ''_'' @ str_nat idx"

text \<open>The loop over \<open>enumerate(zip(chunks, embeddings))\<close>.\<close>

definition build_documents :: "pystr \<Rightarrow> pystr \<Rightarrow> pystr list \<Rightarrow> pyval list \<Rightarrow> indexed_document list" where
  "build_documents src upload_time chunks embeddings =
     map (\<lambda>(idx, chunk, embedding).
            \<lparr> doc_id = document_key src idx,
              content = chunk,
              source_file = src,
              chunk_index = idx,
              upload_date = upload_time,
              content_vector = embedding \<rparr>)
         (enumerate 0 (zip chunks embeddings))"

definition upload_documents_body ::
  "azure_search_client \<Rightarrow> pystr list \<Rightarrow> pyval list \<Rightarrow> pystr \<Rightarrow> (pyexn + op_result) \<times> remote_call list" where
  "upload_documents_body self chunks embeddings src =
     (if length chunks \<noteq> length embeddings
      then (Inl (ValueError (ascii ''Number of chunks must match number of embeddings'')), [])
      else
        let upload_time = utcnow_isoformat self @ ascii ''Z'';
            documents = build_documents src upload_time chunks embeddings
        in case search_client_upload_documents self documents of
             Inl e \<Rightarrow> (Inl e, [UploadDocumentsCall documents])
           | Inr _ \<Rightarrow>
               (Inr (Uploaded (length documents) (index_name self)
                       (ascii ''Uploaded '' @ str_nat (length documents) @ ascii '' documents successfully'')),
                [UploadDocumentsCall documents]))"

definition upload_documents ::
  "azure_search_client \<Rightarrow> pystr list \<Rightarrow> pyval list \<Rightarrow> pystr \<Rightarrow> (pyexn + op_result) \<times> remote_call list" where
  "upload_documents self chunks embeddings src =
     try_except (upload_documents_body self chunks embeddings src) (\<lambda>e. Inr (Failure (str_exn e)))"

text \<open>One element of the list comprehension of \<open>search_similar\<close>.\<close>

definition hit_of_row :: "(pystr \<times> pyval) list \<Rightarrow> pyexn + search_hit" where
  "hit_of_row row =
     (case getitem row (ascii ''content'') of Inl e \<Rightarrow> Inl e | Inr c \<Rightarrow>
      case getitem row (ascii ''source_file'') of Inl e \<Rightarrow> Inl e | Inr s \<Rightarrow>
      case getitem row (ascii ''chunk_index'') of Inl e \<Rightarrow> Inl e | Inr i \<Rightarrow>
        Inr \<lparr> hit_content = c, hit_source = s, hit_chunk = i,
              hit_score = (case map_of row (ascii ''@search.score'') of None \<Rightarrow> PInt 0 | Some v \<Rightarrow> v) \<rparr>)"

fun hits_of_rows :: "(pyexn + (pystr \<times> pyval) list) list \<Rightarrow> pyexn + search_hit list" where
  "hits_of_rows [] = Inr []"
| "hits_of_rows (Inl e # rows) = Inl e"
| "hits_of_rows (Inr row # rows) =
     (case hit_of_row row of Inl e \<Rightarrow> Inl e | Inr hit \<Rightarrow>
      case hits_of_rows rows of Inl e \<Rightarrow> Inl e | Inr hits \<Rightarrow> Inr (hit # hits))"

definition search_request_of :: "pyval \<Rightarrow> int \<Rightarrow> search_request" where
  "search_request_of query_embedding top_k =
     \<lparr> search_text = None,
       vector_queries =
         [ \<lparr> vector = query_embedding, k_nearest_neighbors = top_k,
             query_fields = ascii ''content_vector'' \<rparr> ],
       select = [ascii ''content'', ascii ''source_file'', ascii ''chunk_index''] \<rparr>"

definition search_similar_body ::
  "azure_search_client \<Rightarrow> pyval \<Rightarrow> int \<Rightarrow> (pyexn + search_hit list) \<times> remote_call list" where
  "search_similar_body self query_embedding top_k =
     (let request = search_request_of query_embedding top_k in
      case search_client_search self request of
        Inl e \<Rightarrow> (Inl e, [SearchCall request])
      | Inr results \<Rightarrow> (hits_of_rows results, [SearchCall request]))"

definition search_similar ::
  "azure_search_client \<Rightarrow> pyval \<Rightarrow> int \<Rightarrow> (pyexn + search_hit list) \<times> remote_call list" where
  "search_similar self query_embedding top_k =
     try_except (search_similar_body self query_embedding top_k)
       (\<lambda>e. Inl (Exception (ascii ''Error searching documents: '' @ str_exn e)))"

section \<open>Document processor (document\_processor.py)\<close>

text \<open>
  The processor object: its chunk configuration and the libraries it calls.
  \<open>pdf_pages path\<close> stands for opening the file and reading it with \<open>PdfReader\<close>: it
  raises, or gives for each page what \<open>page.extract_text()\<close> does (raise, or return text).
  \<open>splitter_split_text\<close> is \<open>RecursiveCharacterTextSplitter.split_text\<close> as a function of
  the chunk size, the overlap, the separators and the text. \<open>embedding_model_encode\<close> is
  \<open>SentenceTransformer.encode\<close> followed by \<open>tolist()\<close>: one embedding per text.
\<close>

record document_processor =
  chunk_size :: int
  chunk_overlap :: int
  pdf_pages :: "pystr \<Rightarrow> pyexn + (pyexn + pystr) list"
  splitter_split_text :: "int \<Rightarrow> int \<Rightarrow> pystr list \<Rightarrow> pystr \<Rightarrow> pyexn + pystr list"
  embedding_model_encode :: "pystr list \<Rightarrow> pyexn + pyval list"

datatype pipeline_call =
    OpenPdf pystr
  | SplitText pystr
  | Encode "pystr list"
  | Remote remote_call

definition separators :: "pystr list" where
  "separators = [NL @ NL, NL, ascii ''. '', ascii '' '', []]"

definition page_marker :: "nat \<Rightarrow> pystr" where
  "page_marker page_num = NL @ NL @ ascii ''--- Page '' @ str_nat (page_num + 1) @ ascii '' ---'' @ NL @ NL"

text \<open>The loop over \<open>enumerate(pdf_reader.pages)\<close>, with the text accumulated so far.\<close>

fun extract_pages :: "nat \<Rightarrow> pystr \<Rightarrow> (pyexn + pystr) list \<Rightarrow> pyexn + pystr" where
  "extract_pages page_num text [] = Inr text"
| "extract_pages page_num text (Inl e # pages) = Inl e"
| "extract_pages page_num text (Inr page_text # pages) =
     extract_pages (page_num + 1)
       (if page_text \<noteq> [] then text @ page_marker page_num @ page_text else text) pages"

definition extract_text_from_pdf_body :: "document_processor \<Rightarrow> pystr \<Rightarrow> (pyexn + pystr) \<times> pipeline_call list" where
  "extract_text_from_pdf_body self pdf_path =
     (case pdf_pages self pdf_path of
        Inl e \<Rightarrow> (Inl e, [OpenPdf pdf_path])
      | Inr pages \<Rightarrow>
          (case extract_pages 0 [] pages of
             Inl e \<Rightarrow> (Inl e, [OpenPdf pdf_path])
           | Inr text \<Rightarrow> (Inr (strip text), [OpenPdf pdf_path])))"

definition extract_text_from_pdf :: "document_processor \<Rightarrow> pystr \<Rightarrow> (pyexn + pystr) \<times> pipeline_call list" where
  "extract_text_from_pdf self pdf_path =
     try_except (extract_text_from_pdf_body self pdf_path)
       (\<lambda>e. Inl (Exception (ascii ''Error extracting text from PDF: '' @ str_exn e)))"

definition chunk_text :: "document_processor \<Rightarrow> pystr \<Rightarrow> (pyexn + pystr list) \<times> pipeline_call list" where
  "chunk_text self text =
     try_except
       (splitter_split_text self (chunk_size self) (chunk_overlap self) separators text, [SplitText text])
       (\<lambda>e. Inl (Exception (ascii ''Error chunking text: '' @ str_exn e)))"

definition generate_embeddings :: "document_processor \<Rightarrow> pystr list \<Rightarrow> (pyexn + pyval list) \<times> pipeline_call list" where
  "generate_embeddings self chunks =
     try_except (embedding_model_encode self chunks, [Encode chunks])
       (\<lambda>e. Inl (Exception (ascii ''Error generating embeddings: '' @ str_exn e)))"

section \<open>Pipeline orchestrator (main.py)\<close>

text \<open>
  The module globals, and \<open>Path(p).name\<close> of the platform. The argument of \<open>process_pdf\<close>
  is \<open>None\<close>, a file object with a \<open>name\<close>, or a plain path string (which has no
  attribute \<open>name\<close>).
\<close>

record main_module =
  processor :: document_processor
  azure_client :: azure_search_client
  path_name :: "pystr \<Rightarrow> pystr"

datatype pdf_file = NoFile | FileObj pystr | FilePath pystr

text \<open>The value of the variable \<open>status\<close> when each stage is entered.\<close>

definition status_extracting :: "pystr \<Rightarrow> pystr" where
  "status_extracting file_name =
     PAGE_FACING_UP @ ascii '' Processing: '' @ file_name @ NL @ NL @
     HOURGLASS @ ascii '' Extracting text from PDF...'' @ NL"

definition status_chunking :: "pystr \<Rightarrow> pystr \<Rightarrow> pystr" where
  "status_chunking file_name text =
     status_extracting file_name @
     CHECK_MARK @ ascii '' Extracted '' @ str_nat (length text) @ ascii '' characters'' @ NL @ NL @
     HOURGLASS @ ascii '' Chunking text...'' @ NL"

definition status_embedding :: "pystr \<Rightarrow> pystr \<Rightarrow> pystr list \<Rightarrow> pystr" where
  "status_embedding file_name text chunks =
     status_chunking file_name text @
     CHECK_MARK @ ascii '' Created '' @ str_nat (length chunks) @ ascii '' chunks'' @ NL @ NL @
     HOURGLASS @ ascii '' Generating embeddings...'' @ NL"

definition status_uploading :: "pystr \<Rightarrow> pystr \<Rightarrow> pystr list \<Rightarrow> pyval list \<Rightarrow> pystr" where
  "status_uploading file_name text chunks embeddings =
     status_embedding file_name text chunks @
     CHECK_MARK @ ascii '' Generated '' @ str_nat (length embeddings) @ ascii '' embeddings'' @ NL @ NL @
     HOURGLASS @ ascii '' Uploading to Azure AI Search...'' @ NL"

text \<open>
  The branch on \<open>result['success']\<close> after the upload; a result dict without the key
  \<open>'count'\<close> raises \<open>KeyError\<close> there.
\<close>

fun upload_status :: "pystr \<Rightarrow> op_result \<Rightarrow> pyexn + pystr" where
  "upload_status status (Uploaded n idx msg) =
     Inr (status @ CHECK_MARK @ ascii '' Successfully uploaded '' @ str_nat n @ ascii '' documents to Azure'' @ NL @
          BAR_CHART @ ascii '' Index: '' @ idx @ NL)"
| "upload_status status (Failure err) =
     Inr (status @ CROSS_MARK @ ascii '' Upload failed: '' @ err @ NL)"
| "upload_status status (Deleted msg) = Inl (KeyError (ascii ''count''))"
| "upload_status status (Created idx msg) = Inl (KeyError (ascii ''count''))"

definition process_pdf_body :: "main_module \<Rightarrow> pdf_file \<Rightarrow> (pyexn + pystr) \<times> pipeline_call list" where
  "process_pdf_body m pdf =
     (case pdf of
        NoFile \<Rightarrow> (Inr (CROSS_MARK @ ascii '' No file uploaded''), [])
      | FilePath p \<Rightarrow>
          (Inl (AttributeError (QUOTE @ ascii ''str'' @ QUOTE @ ascii '' object has no attribute '' @
                                QUOTE @ ascii ''name'' @ QUOTE)), [])
      | FileObj file_path \<Rightarrow>
          (let file_name = path_name m file_path in
           case extract_text_from_pdf (processor m) file_path of
             (Inl e, log1) \<Rightarrow> (Inl e, log1)
           | (Inr text, log1) \<Rightarrow>
               if text = []
               then (Inr (status_extracting file_name @ CROSS_MARK @
                          ascii '' Error: Could not extract text from PDF''), log1)
               else
                 (case chunk_text (processor m) text of
                    (Inl e, log2) \<Rightarrow> (Inl e, log1 @ log2)
                  | (Inr chunks, log2) \<Rightarrow>
                      (case generate_embeddings (processor m) chunks of
                         (Inl e, log3) \<Rightarrow> (Inl e, log1 @ log2 @ log3)
                       | (Inr embeddings, log3) \<Rightarrow>
                           (case upload_documents (azure_client m) chunks embeddings file_name of
                              (Inl e, log4) \<Rightarrow> (Inl e, log1 @ log2 @ log3 @ map Remote log4)
                            | (Inr result, log4) \<Rightarrow>
                                (upload_status (status_uploading file_name text chunks embeddings) result,
                                 log1 @ log2 @ log3 @ map Remote log4))))))"

definition process_pdf :: "main_module \<Rightarrow> pdf_file \<Rightarrow> (pyexn + pystr) \<times> pipeline_call list" where
  "process_pdf m pdf =
     try_except (process_pdf_body m pdf)
       (\<lambda>e. Inr (CROSS_MARK @ ascii '' Error processing file: '' @ str_exn e))"

text \<open>The two other entry points of the UI; \<open>create_index\<close> is called with its default dimension.\<close>

fun create_index_status :: "op_result \<Rightarrow> pyexn + pystr" where
  "create_index_status (Created idx msg) =
     Inr (CHECK_MARK @ ascii '' Index '' @ QUOTE @ idx @ QUOTE @ ascii '' created successfully'')"
| "create_index_status (Uploaded n idx msg) =
     Inr (CHECK_MARK @ ascii '' Index '' @ QUOTE @ idx @ QUOTE @ ascii '' created successfully'')"
| "create_index_status (Deleted msg) = Inl (KeyError (ascii ''index_name''))"
| "create_index_status (Failure err) = Inr (CROSS_MARK @ ascii '' Error creating index: '' @ err)"

definition main_create_index :: "main_module \<Rightarrow> (pyexn + pystr) \<times> remote_call list" where
  "main_create_index m =
     try_except
       (case create_index (azure_client m) 384 of
          (Inl e, calls) \<Rightarrow> (Inl e, calls)
        | (Inr result, calls) \<Rightarrow> (create_index_status result, calls))
       (\<lambda>e. Inr (CROSS_MARK @ ascii '' Error: '' @ str_exn e))"

fun delete_index_status :: "op_result \<Rightarrow> pyexn + pystr" where
  "delete_index_status (Deleted msg) = Inr (CHECK_MARK @ ascii '' '' @ msg)"
| "delete_index_status (Created idx msg) = Inr (CHECK_MARK @ ascii '' '' @ msg)"
| "delete_index_status (Uploaded n idx msg) = Inr (CHECK_MARK @ ascii '' '' @ msg)"
| "delete_index_status (Failure err) = Inr (CROSS_MARK @ ascii '' Error deleting index: '' @ err)"

definition main_delete_index :: "main_module \<Rightarrow> (pyexn + pystr) \<times> remote_call list" where
  "main_delete_index m =
     try_except
       (case delete_index (azure_client m) of
          (Inl e, calls) \<Rightarrow> (Inl e, calls)
        | (Inr result, calls) \<Rightarrow> (delete_index_status result, calls))
       (\<lambda>e. Inr (CROSS_MARK @ ascii '' Error: '' @ str_exn e))"

section \<open>Embedding microservice (app.py)\<close>

text \<open>Truth value of a value, as \<open>not x\<close> tests it.\<close>

fun truthy :: "pyval \<Rightarrow> bool" where
  "truthy PNone = False"
| "truthy (PBool b) = b"
| "truthy (PInt i) = (i \<noteq> 0)"
| "truthy (PFloat x) = (x \<noteq> 0)"
| "truthy (PStr s) = (s \<noteq> [])"
| "truthy (PList xs) = (xs \<noteq> [])"
| "truthy (PDict kvs) = (kvs \<noteq> [])"

fun type_name :: "pyval \<Rightarrow> pystr" where
  "type_name PNone = ascii ''NoneType''"
| "type_name (PBool b) = ascii ''bool''"
| "type_name (PInt i) = ascii ''int''"
| "type_name (PFloat x) = ascii ''float''"
| "type_name (PStr s) = ascii ''str''"
| "type_name (PList xs) = ascii ''list''"
| "type_name (PDict kvs) = ascii ''dict''"

fun startswith :: "pystr \<Rightarrow> pystr \<Rightarrow> bool" where
  "startswith s [] = True"
| "startswith [] (p # ps) = False"
| "startswith (c # s) (p # ps) = (c = p \<and> startswith s ps)"

fun str_contains :: "pystr \<Rightarrow> pystr \<Rightarrow> bool" where
  "str_contains [] sub = (sub = [])"
| "str_contains (c # s) sub = (startswith (c # s) sub \<or> str_contains s sub)"

text \<open>
  \<open>key in data\<close> for a string key: a key of a dict, an element of a list, a substring of
  a string; a \<open>TypeError\<close> on the values that are no containers.
\<close>

fun py_in :: "pystr \<Rightarrow> pyval \<Rightarrow> pyexn + bool" where
  "py_in k (PDict kvs) = Inr (k \<in> set (map fst kvs))"
| "py_in k (PList xs) = Inr (PStr k \<in> set xs)"
| "py_in k (PStr s) = Inr (str_contains s k)"
| "py_in k v =
     Inl (TypeError (ascii ''argument of type '' @ QUOTE @ type_name v @ QUOTE @ ascii '' is not iterable''))"

text \<open>\<open>data[key]\<close> for a string key.\<close>

fun subscript :: "pyval \<Rightarrow> pystr \<Rightarrow> pyexn + pyval" where
  "subscript (PDict kvs) k = getitem kvs k"
| "subscript (PList xs) k =
     Inl (TypeError (ascii ''list indices must be integers or slices, not str''))"
| "subscript (PStr s) k =
     Inl (TypeError (ascii ''string indices must be integers, not '' @ QUOTE @ ascii ''str'' @ QUOTE))"
| "subscript v k =
     Inl (TypeError (QUOTE @ type_name v @ QUOTE @ ascii '' object is not subscriptable''))"

fun is_str :: "pyval \<Rightarrow> bool" where
  "is_str (PStr s) = True"
| "is_str v = False"

fun is_list :: "pyval \<Rightarrow> bool" where
  "is_list (PList xs) = True"
| "is_list v = False"

text \<open>
  The service: \<open>model.encode(x, normalize_embeddings=True)\<close> followed by the conversion
  to lists, where \<open>x\<close> is one text (the result is one vector) or a list (the result is one
  vector per element). A request is what \<open>request.get_json()\<close> does: raise, or return the
  parsed body. A response is the body given to \<open>jsonify\<close> and the status code.
\<close>

record embedding_service =
  model_encode :: "pyval \<Rightarrow> pyexn + pyval list"
  model_encode_batch :: "pyval \<Rightarrow> pyexn + pyval list list"

datatype model_call = EncodeCall pyval

type_synonym response = "pyval \<times> nat"

definition MODEL_NAME :: pystr where
  "MODEL_NAME = ascii ''all-MiniLM-L6-v2''"

definition error_response :: "pystr \<Rightarrow> nat \<Rightarrow> response" where
  "error_response msg code = (PDict [(ascii ''error'', PStr msg)], code)"

definition health :: response where
  "health = (PDict [(ascii ''status'', PStr (ascii ''healthy'')), (ascii ''model'', PStr MODEL_NAME)], 200)"

text \<open>The guard \<open>not data or key not in data\<close>, with the short circuit of \<open>or\<close>.\<close>

definition missing_field :: "pyval \<Rightarrow> pystr \<Rightarrow> pyexn + bool" where
  "missing_field data k =
     (if \<not> truthy data then Inr True
      else case py_in k data of Inl e \<Rightarrow> Inl e | Inr b \<Rightarrow> Inr (\<not> b))"

text \<open>The guard \<open>not text or not isinstance(text, str)\<close>.\<close>

definition invalid_text :: "pyval \<Rightarrow> bool" where
  "invalid_text v \<longleftrightarrow> \<not> truthy v \<or> \<not> is_str v"

text \<open>The guard \<open>not isinstance(texts, list) or len(texts) == 0\<close>; \<open>len\<close> is taken of a list only.\<close>

definition invalid_texts :: "pyval \<Rightarrow> bool" where
  "invalid_texts v \<longleftrightarrow> \<not> is_list v \<or> (case v of PList xs \<Rightarrow> length xs = 0 | _ \<Rightarrow> False)"

definition embed_body :: "embedding_service \<Rightarrow> pyexn + pyval \<Rightarrow> (pyexn + response) \<times> model_call list" where
  "embed_body svc request_json =
     (case request_json of
        Inl e \<Rightarrow> (Inl e, [])
      | Inr data \<Rightarrow>
          (case missing_field data (ascii ''text'') of
             Inl e \<Rightarrow> (Inl e, [])
           | Inr True \<Rightarrow> (Inr (error_response (ascii ''Missing text field'') 400), [])
           | Inr False \<Rightarrow>
               (case subscript data (ascii ''text'') of
                  Inl e \<Rightarrow> (Inl e, [])
                | Inr text_value \<Rightarrow>
                    if invalid_text text_value
                    then (Inr (error_response (ascii ''Text must be a non-empty string'') 400), [])
                    else
                      (case model_encode svc text_value of
                         Inl e \<Rightarrow> (Inl e, [EncodeCall text_value])
                       | Inr embedding_list \<Rightarrow>
                           (Inr (PDict [(ascii ''embedding'', PList embedding_list),
                                        (ascii ''dimension'', PInt (int (length embedding_list))),
                                        (ascii ''model'', PStr MODEL_NAME)], 200),
                            [EncodeCall text_value])))))"

definition embed :: "embedding_service \<Rightarrow> pyexn + pyval \<Rightarrow> (pyexn + response) \<times> model_call list" where
  "embed svc request_json =
     try_except (embed_body svc request_json) (\<lambda>e. Inr (error_response (str_exn e) 500))"

definition embed_batch_body :: "embedding_service \<Rightarrow> pyexn + pyval \<Rightarrow> (pyexn + response) \<times> model_call list" where
  "embed_batch_body svc request_json =
     (case request_json of
        Inl e \<Rightarrow> (Inl e, [])
      | Inr data \<Rightarrow>
          (case missing_field data (ascii ''texts'') of
             Inl e \<Rightarrow> (Inl e, [])
           | Inr True \<Rightarrow> (Inr (error_response (ascii ''Missing texts field'') 400), [])
           | Inr False \<Rightarrow>
               (case subscript data (ascii ''texts'') of
                  Inl e \<Rightarrow> (Inl e, [])
                | Inr texts \<Rightarrow>
                    if invalid_texts texts
                    then (Inr (error_response (ascii ''texts must be a non-empty array'') 400), [])
                    else
                      (case model_encode_batch svc texts of
                         Inl e \<Rightarrow> (Inl e, [EncodeCall texts])
                       | Inr embeddings_list \<Rightarrow>
                           (Inr (PDict [(ascii ''embeddings'', PList (map PList embeddings_list)),
                                        (ascii ''count'', PInt (int (length embeddings_list))),
                                        (ascii ''dimension'',
                                           PInt (case embeddings_list of [] \<Rightarrow> 0 | emb # _ \<Rightarrow> int (length emb))),
                                        (ascii ''model'', PStr MODEL_NAME)], 200),
                            [EncodeCall texts])))))"

definition embed_batch :: "embedding_service \<Rightarrow> pyexn + pyval \<Rightarrow> (pyexn + response) \<times> model_call list" where
  "embed_batch svc request_json =
     try_except (embed_batch_body svc request_json) (\<lambda>e. Inr (error_response (str_exn e) 500))"

section \<open>Example objects\<close>

text \<open>
  Concrete clients, processors and services on which the theorems below are evaluated: a
  search service that answers, one that refuses every call, a two-page PDF whose second
  page has no text, and variants in which one library fails.
\<close>

definition example_client :: azure_search_client where
  "example_client =
     \<lparr> index_name = ascii ''cpa-documents'',
       index_client_delete_index = (\<lambda>n. Inr ()),
       index_client_create_or_update_index = (\<lambda>i. Inr (si_name i)),
       search_client_upload_documents = (\<lambda>docs. Inr ()),
       search_client_search = (\<lambda>r. Inr []),
       utcnow_isoformat = ascii ''2024-05-01T10:30:00.000123'' \<rparr>"

definition service_unavailable :: pyexn where
  "service_unavailable = LibraryError (ascii ''HttpResponseError'') (ascii ''service unavailable'')"

definition failing_client :: azure_search_client where
  "failing_client =
     \<lparr> index_name = ascii ''cpa-documents'',
       index_client_delete_index = (\<lambda>n. Inl service_unavailable),
       index_client_create_or_update_index = (\<lambda>i. Inl service_unavailable),
       search_client_upload_documents = (\<lambda>docs. Inl service_unavailable),
       search_client_search = (\<lambda>r. Inl service_unavailable),
       utcnow_isoformat = ascii ''2024-05-01T10:30:00.000123'' \<rparr>"

definition example_processor :: document_processor where
  "example_processor =
     \<lparr> chunk_size = 1000,
       chunk_overlap = 200,
       pdf_pages = (\<lambda>p. Inr [Inr (ascii ''Tax rules''), Inr []]),
       splitter_split_text = (\<lambda>size overlap seps t. Inr [t]),
       embedding_model_encode = (\<lambda>chunks. Inr (map (\<lambda>c. PList [PFloat 1, PFloat 0]) chunks)) \<rparr>"

definition example_module :: main_module where
  "example_module = \<lparr> processor = example_processor, azure_client = example_client, path_name = (\<lambda>p. p) \<rparr>"

definition unreadable_pdf_module :: main_module where
  "unreadable_pdf_module =
     example_module \<lparr> processor := example_processor
       \<lparr> pdf_pages := (\<lambda>p. Inl (LibraryError (ascii ''PdfReadError'') (ascii ''EOF marker not found''))) \<rparr> \<rparr>"

definition blank_pdf_module :: main_module where
  "blank_pdf_module =
     example_module \<lparr> processor := example_processor \<lparr> pdf_pages := (\<lambda>p. Inr [Inr []]) \<rparr> \<rparr>"

definition failing_splitter_module :: main_module where
  "failing_splitter_module =
     example_module \<lparr> processor := example_processor
       \<lparr> splitter_split_text := (\<lambda>size overlap seps t. Inl (ValueError (ascii ''bad separator''))) \<rparr> \<rparr>"

definition failing_model_module :: main_module where
  "failing_model_module =
     example_module \<lparr> processor := example_processor
       \<lparr> embedding_model_encode := (\<lambda>chunks. Inl (LibraryError (ascii ''RuntimeError'') (ascii ''out of memory''))) \<rparr> \<rparr>"

definition failing_upload_module :: main_module where
  "failing_upload_module = example_module \<lparr> azure_client := failing_client \<rparr>"

definition example_row :: "(pystr \<times> pyval) list" where
  "example_row =
     [(ascii ''content'', PStr (ascii ''Tax rules'')),
      (ascii ''source_file'', PStr (ascii ''f.pdf'')),
      (ascii ''chunk_index'', PInt 0)]"

definition interrupted_search_client :: azure_search_client where
  "interrupted_search_client =
     example_client \<lparr> search_client_search := (\<lambda>r. Inr [Inr example_row, Inl service_unavailable]) \<rparr>"

definition example_service :: embedding_service where
  "example_service =
     \<lparr> model_encode = (\<lambda>t. Inr [PFloat 1, PFloat 0]),
       model_encode_batch = (\<lambda>ts. Inr [[PFloat 1, PFloat 0]]) \<rparr>"

definition example_text :: pystr where
  "example_text = ascii ''--- Page 1 ---'' @ NL @ NL @ ascii ''Tax rules''"

section \<open>Strings and decimal numerals\<close>

lemmas string_consts = ascii_def NL_def QUOTE_def CROSS_MARK_def CHECK_MARK_def HOURGLASS_def PAGE_FACING_UP_def BAR_CHART_def

lemma str_nat_nonempty: "str_nat n \<noteq> []"
  by (subst str_nat.simps) simp

lemma str_nat_digits: "c \<in> set (str_nat n) \<Longrightarrow> 48 \<le> c \<and> c \<le> 57"
proof (induction n rule: str_nat.induct)
  case (1 n)
  show ?case
  proof (cases "n < 10")
    case True
    with "1.prems" show ?thesis by (simp add: str_nat.simps [of n])
  next
    case False
    from "1.prems" False have "c \<in> set (str_nat (n div 10)) \<or> c = 48 + n mod 10"
      by (auto simp add: str_nat.simps [of n])
    then show ?thesis
    proof
      assume "c \<in> set (str_nat (n div 10))"
      with "1.IH" False show ?thesis by simp
    next
      assume "c = 48 + n mod 10"
      moreover have "n mod 10 < 10" by simp
      ultimately show ?thesis by linarith
    qed
  qed
qed

lemma str_nat_inj: "str_nat m = str_nat n \<Longrightarrow> m = n"
proof (induction m arbitrary: n rule: str_nat.induct)
  case (1 m)
  show ?case
  proof (cases "m < 10")
    case m: True
    show ?thesis
    proof (cases "n < 10")
      case True
      with m "1.prems" show ?thesis by (simp add: str_nat.simps [of m] str_nat.simps [of n])
    next
      case False
      with m "1.prems" have "str_nat (n div 10) = []"
        by (simp add: str_nat.simps [of m] str_nat.simps [of n] Cons_eq_append_conv)
      then show ?thesis by (simp add: str_nat_nonempty)
    qed
  next
    case m: False
    show ?thesis
    proof (cases "n < 10")
      case True
      with m "1.prems" have "str_nat (m div 10) = []"
        by (simp add: str_nat.simps [of m] str_nat.simps [of n] append_eq_Cons_conv)
      then show ?thesis by (simp add: str_nat_nonempty)
    next
      case False
      with m "1.prems" have eq: "str_nat (m div 10) = str_nat (n div 10)" and md: "m mod 10 = n mod 10"
        by (simp_all add: str_nat.simps [of m] str_nat.simps [of n])
      from "1.IH" [OF m eq] have "m div 10 = n div 10" .
      with md show ?thesis by (metis div_mult_mod_eq)
    qed
  qed
qed

lemma split_at_last_sep:
  assumes "a @ x # d1 = b @ x # d2" and "x \<notin> set d1" and "x \<notin> set d2"
  shows "a = b \<and> d1 = d2"
  using assms
  by (auto simp: append_eq_append_conv2 Cons_eq_append_conv append_eq_Cons_conv)

lemma underscore_ascii: "ascii ''_'' = [95]"
  by (simp add: ascii_def)

section \<open>Index client: documents and keys\<close>

lemma try_except_Inr: "\<exists>r. fst (try_except body (\<lambda>e. Inr (h e))) = Inr r"
  by (cases body) (auto simp: try_except_def split: sum.splits)

lemma build_documents_length:
  "length (build_documents src t chunks embeddings) = min (length chunks) (length embeddings)"
  by (simp add: build_documents_def)

lemma build_documents_nth:
  assumes "i < length chunks" and "length chunks = length embeddings"
  shows "build_documents src t chunks embeddings ! i =
           \<lparr> doc_id = document_key src i, content = chunks ! i, source_file = src,
             chunk_index = i, upload_date = t, content_vector = embeddings ! i \<rparr>"
  using assms by (simp add: build_documents_def nth_enumerate_eq)

lemma build_documents_ids:
  "map doc_id (build_documents src t chunks embeddings) =
     map (document_key src) [0..<min (length chunks) (length embeddings)]"
  by (rule nth_equalityI) (simp_all add: build_documents_def nth_enumerate_eq)

lemma document_key_inj: "inj_on (document_key src) A"
  by (rule inj_onI) (auto simp: document_key_def dest: str_nat_inj)

lemma build_documents_distinct: "distinct (map doc_id (build_documents src t chunks embeddings))"
  by (simp add: build_documents_ids distinct_map document_key_inj)

lemma upload_documents_calls:
  assumes "length chunks = length embeddings"
  shows "snd (upload_documents self chunks embeddings src) =
           [UploadDocumentsCall (build_documents src (utcnow_isoformat self @ ascii ''Z'') chunks embeddings)]"
  using assms
  by (simp add: upload_documents_def upload_documents_body_def try_except_def Let_def split: sum.splits)

lemma hits_of_rows_first_failure:
  assumes "\<forall>r \<in> set pre. \<exists>row hit. r = Inr row \<and> hit_of_row row = Inr hit"
  shows "hits_of_rows (pre @ Inl e # post) = Inl e"
  using assms by (induction pre) auto

text \<open>
  Claim C6, as amended. The key function is not injective on file names: two keys are equal
  exactly when the chunk indices are equal and the file names agree once every \<open>.\<close> is
  replaced by \<open>_\<close>. Keys are therefore unique per chunk of one file, and across files
  whose names stay different after the replacement.
\<close>

theorem document_key_eq_iff:
  "document_key s1 i1 = document_key s2 i2 \<longleftrightarrow>
     replace_char 46 95 s1 = replace_char 46 95 s2 \<and> i1 = i2"
proof
  assume eq: "document_key s1 i1 = document_key s2 i2"
  have n1: "95 \<notin> set (str_nat i1)" and n2: "95 \<notin> set (str_nat i2)"
    using str_nat_digits [of 95] by auto
  from eq have "replace_char 46 95 s1 @ 95 # str_nat i1 = replace_char 46 95 s2 @ 95 # str_nat i2"
    by (simp add: document_key_def underscore_ascii)
  from split_at_last_sep [OF this n1 n2] show "replace_char 46 95 s1 = replace_char 46 95 s2 \<and> i1 = i2"
    by (auto dest: str_nat_inj)
next
  assume "replace_char 46 95 s1 = replace_char 46 95 s2 \<and> i1 = i2"
  then show "document_key s1 i1 = document_key s2 i2" by (simp add: document_key_def)
qed

text \<open>
  Claim C6 as stated fails: the distinct file names \<open>a.b\<close> and \<open>a_b\<close> give the same key
  for chunk 0.
\<close>

theorem document_key_collision:
  "document_key (ascii ''a.b'') 0 = document_key (ascii ''a_b'') 0 \<and> (ascii ''a.b'', 0::nat) \<noteq> (ascii ''a_b'', 0)"
  by (simp add: document_key_def replace_char_def ascii_def)

text \<open>
  Claim C4. For chunk and embedding lists of equal length, \<open>upload_documents\<close> hands the
  search service one batch with one document per chunk, in order: document \<open>i\<close> has
  \<open>chunk_index\<close> \<open>i\<close> (counting from 0), the id made of the file name with every \<open>.\<close>
  replaced by \<open>_\<close>, then \<open>_\<close> and the index, the chunk as content, its embedding as vector,
  and the one timestamp of the call, the clock's \<open>isoformat()\<close> followed by \<open>Z\<close>; the ids
  of the batch are pairwise distinct.
\<close>

theorem upload_documents_one_document_per_chunk:
  assumes "length chunks = length embeddings"
  shows "\<exists>docs.
           snd (upload_documents self chunks embeddings src) = [UploadDocumentsCall docs] \<and>
           length docs = length chunks \<and>
           (\<forall>i < length chunks.
              docs ! i =
                \<lparr> doc_id = replace_char 46 95 src @ ascii ''_'' @ str_nat i,
                  content = chunks ! i,
                  source_file = src,
                  chunk_index = i,
                  upload_date = utcnow_isoformat self @ ascii ''Z'',
                  content_vector = embeddings ! i \<rparr>) \<and>
           distinct (map doc_id docs)"
proof -
  let ?docs = "build_documents src (utcnow_isoformat self @ ascii ''Z'') chunks embeddings"
  have "snd (upload_documents self chunks embeddings src) = [UploadDocumentsCall ?docs]"
    using assms by (rule upload_documents_calls)
  moreover have "length ?docs = length chunks"
    using assms by (simp add: build_documents_length)
  moreover have "\<forall>i < length chunks.
      ?docs ! i =
        \<lparr> doc_id = replace_char 46 95 src @ ascii ''_'' @ str_nat i, content = chunks ! i,
          source_file = src, chunk_index = i,
          upload_date = utcnow_isoformat self @ ascii ''Z'', content_vector = embeddings ! i \<rparr>"
    using assms by (simp add: build_documents_nth document_key_def)
  moreover have "distinct (map doc_id ?docs)"
    by (rule build_documents_distinct)
  ultimately show ?thesis by blast
qed

text \<open>
  The theorem at a two-chunk upload of \<open>tax.2024.pdf\<close>.
\<close>

theorem upload_documents_one_document_per_chunk_witness:
  "length [ascii ''Tax rules'', ascii ''Audit''] = length [PList [PFloat 1], PList [PFloat 0]] \<and>
   (\<exists>docs.
      snd (upload_documents example_client [ascii ''Tax rules'', ascii ''Audit'']
             [PList [PFloat 1], PList [PFloat 0]] (ascii ''tax.2024.pdf'')) = [UploadDocumentsCall docs] \<and>
      length docs = 2 \<and>
      doc_id (docs ! 0) = ascii ''tax_2024_pdf_0'' \<and> chunk_index (docs ! 0) = 0 \<and>
      doc_id (docs ! 1) = ascii ''tax_2024_pdf_1'' \<and> chunk_index (docs ! 1) = 1 \<and>
      upload_date (docs ! 0) = ascii ''2024-05-01T10:30:00.000123Z'' \<and>
      upload_date (docs ! 1) = ascii ''2024-05-01T10:30:00.000123Z'' \<and>
      distinct (map doc_id docs))"
proof -
  have h: "length [ascii ''Tax rules'', ascii ''Audit''] = length [PList [PFloat 1], PList [PFloat 0]]"
    by simp
  from upload_documents_one_document_per_chunk [OF h, of example_client "ascii ''tax.2024.pdf''"]
  obtain docs where
    calls: "snd (upload_documents example_client [ascii ''Tax rules'', ascii ''Audit'']
             [PList [PFloat 1], PList [PFloat 0]] (ascii ''tax.2024.pdf'')) = [UploadDocumentsCall docs]"
    and len: "length docs = length [ascii ''Tax rules'', ascii ''Audit'']"
    and nth: "\<forall>i < length [ascii ''Tax rules'', ascii ''Audit''].
                docs ! i =
                  \<lparr> doc_id = replace_char 46 95 (ascii ''tax.2024.pdf'') @ ascii ''_'' @ str_nat i,
                    content = [ascii ''Tax rules'', ascii ''Audit''] ! i,
                    source_file = ascii ''tax.2024.pdf'',
                    chunk_index = i,
                    upload_date = utcnow_isoformat example_client @ ascii ''Z'',
                    content_vector = [PList [PFloat 1], PList [PFloat 0]] ! i \<rparr>"
    and dist: "distinct (map doc_id docs)"
    by blast
  from nth have d0: "docs ! 0 =
      \<lparr> doc_id = replace_char 46 95 (ascii ''tax.2024.pdf'') @ ascii ''_'' @ str_nat 0,
        content = ascii ''Tax rules'', source_file = ascii ''tax.2024.pdf'', chunk_index = 0,
        upload_date = utcnow_isoformat example_client @ ascii ''Z'', content_vector = PList [PFloat 1] \<rparr>"
    by simp
  from nth have d1: "docs ! 1 =
      \<lparr> doc_id = replace_char 46 95 (ascii ''tax.2024.pdf'') @ ascii ''_'' @ str_nat 1,
        content = ascii ''Audit'', source_file = ascii ''tax.2024.pdf'', chunk_index = 1,
        upload_date = utcnow_isoformat example_client @ ascii ''Z'', content_vector = PList [PFloat 0] \<rparr>"
    by simp
  have "doc_id (docs ! 0) = ascii ''tax_2024_pdf_0''" "chunk_index (docs ! 0) = 0"
    "doc_id (docs ! 1) = ascii ''tax_2024_pdf_1''" "chunk_index (docs ! 1) = 1"
    "upload_date (docs ! 0) = ascii ''2024-05-01T10:30:00.000123Z''"
    "upload_date (docs ! 1) = ascii ''2024-05-01T10:30:00.000123Z''"
    using d0 d1 by (simp_all add: replace_char_def ascii_def str_nat.simps example_client_def)
  with h calls len dist show ?thesis by auto
qed

text \<open>
  Claim C5. When the two lists differ in length, \<open>upload_documents\<close> returns
  \<open>{'success': False, 'error': ...}\<close> with the message of its \<open>ValueError\<close>, and has issued
  no call to the search service.
\<close>

theorem upload_documents_length_mismatch:
  assumes "length chunks \<noteq> length embeddings"
  shows "upload_documents self chunks embeddings src =
           (Inr (Failure (ascii ''Number of chunks must match number of embeddings'')), [])"
  using assms by (simp add: upload_documents_def upload_documents_body_def try_except_def)

text \<open>
  The theorem at two chunks with one embedding.
\<close>

theorem upload_documents_length_mismatch_witness:
  "length [ascii ''Tax rules'', ascii ''Audit''] \<noteq> length [PList [PFloat 1]] \<and>
   upload_documents example_client [ascii ''Tax rules'', ascii ''Audit''] [PList [PFloat 1]] (ascii ''tax.pdf'') =
     (Inr (Failure (ascii ''Number of chunks must match number of embeddings'')), [])"
proof -
  have h: "length [ascii ''Tax rules'', ascii ''Audit''] \<noteq> length [PList [PFloat 1]]"
    by simp
  from h upload_documents_length_mismatch [OF h] show ?thesis by blast
qed

text \<open>
  Claim C7. \<open>create_index\<close>, \<open>delete_index\<close> and \<open>upload_documents\<close> always return a result
  value, and when the SDK call fails with \<open>e\<close> that value is
  \<open>{'success': False, 'error': str(e)}\<close>. \<open>search_similar\<close> instead raises:
  when the search call fails with \<open>e\<close>, or iterating its results fails with \<open>e\<close> after rows
  that convert, it raises \<open>Exception("Error searching documents: " + str(e))\<close>.
\<close>

theorem index_client_error_styles:
  "(\<exists>r. fst (create_index self embedding_dim) = Inr r) \<and>
   (\<exists>r. fst (delete_index self) = Inr r) \<and>
   (\<exists>r. fst (upload_documents self chunks embeddings src) = Inr r) \<and>
   (\<forall>e. index_client_create_or_update_index self (index_definition self embedding_dim) = Inl e \<longrightarrow>
        fst (create_index self embedding_dim) = Inr (Failure (str_exn e))) \<and>
   (\<forall>e. index_client_delete_index self (index_name self) = Inl e \<longrightarrow>
        fst (delete_index self) = Inr (Failure (str_exn e))) \<and>
   (\<forall>e. length chunks = length embeddings \<and>
        search_client_upload_documents self
          (build_documents src (utcnow_isoformat self @ ascii ''Z'') chunks embeddings) = Inl e \<longrightarrow>
        fst (upload_documents self chunks embeddings src) = Inr (Failure (str_exn e))) \<and>
   (\<forall>e. search_client_search self (search_request_of q k) = Inl e \<longrightarrow>
        fst (search_similar self q k) = Inl (Exception (ascii ''Error searching documents: '' @ str_exn e))) \<and>
   (\<forall>e pre post.
        search_client_search self (search_request_of q k) = Inr (pre @ Inl e # post) \<and>
        (\<forall>r \<in> set pre. \<exists>row hit. r = Inr row \<and> hit_of_row row = Inr hit) \<longrightarrow>
        fst (search_similar self q k) = Inl (Exception (ascii ''Error searching documents: '' @ str_exn e)))"
proof (intro conjI allI impI)
  show "\<exists>r. fst (create_index self embedding_dim) = Inr r"
    unfolding create_index_def by (rule try_except_Inr)
  show "\<exists>r. fst (delete_index self) = Inr r"
    unfolding delete_index_def by (rule try_except_Inr)
  show "\<exists>r. fst (upload_documents self chunks embeddings src) = Inr r"
    unfolding upload_documents_def by (rule try_except_Inr)
next
  fix e assume "index_client_create_or_update_index self (index_definition self embedding_dim) = Inl e"
  then show "fst (create_index self embedding_dim) = Inr (Failure (str_exn e))"
    by (simp add: create_index_def create_index_body_def try_except_def Let_def)
next
  fix e assume "index_client_delete_index self (index_name self) = Inl e"
  then show "fst (delete_index self) = Inr (Failure (str_exn e))"
    by (simp add: delete_index_def delete_index_body_def try_except_def)
next
  fix e assume "length chunks = length embeddings \<and>
        search_client_upload_documents self
          (build_documents src (utcnow_isoformat self @ ascii ''Z'') chunks embeddings) = Inl e"
  then show "fst (upload_documents self chunks embeddings src) = Inr (Failure (str_exn e))"
    by (simp add: upload_documents_def upload_documents_body_def try_except_def Let_def)
next
  fix e assume "search_client_search self (search_request_of q k) = Inl e"
  then show "fst (search_similar self q k) = Inl (Exception (ascii ''Error searching documents: '' @ str_exn e))"
    by (simp add: search_similar_def search_similar_body_def try_except_def Let_def)
next
  fix e pre post
  assume "search_client_search self (search_request_of q k) = Inr (pre @ Inl e # post) \<and>
        (\<forall>r \<in> set pre. \<exists>row hit. r = Inr row \<and> hit_of_row row = Inr hit)"
  then show "fst (search_similar self q k) = Inl (Exception (ascii ''Error searching documents: '' @ str_exn e))"
    by (simp add: search_similar_def search_similar_body_def try_except_def Let_def hits_of_rows_first_failure)
qed

text \<open>
  The theorem at a service that refuses every call, and at one whose result iterator fails
  after the first row.
\<close>

theorem index_client_error_styles_witness:
  "fst (create_index failing_client 384) = Inr (Failure (ascii ''service unavailable'')) \<and>
   fst (delete_index failing_client) = Inr (Failure (ascii ''service unavailable'')) \<and>
   fst (upload_documents failing_client [ascii ''Tax rules''] [PList [PFloat 1]] (ascii ''tax.pdf'')) =
     Inr (Failure (ascii ''service unavailable'')) \<and>
   fst (search_similar failing_client (PList [PFloat 1]) 5) =
     Inl (Exception (ascii ''Error searching documents: service unavailable'')) \<and>
   fst (search_similar interrupted_search_client (PList [PFloat 1]) 5) =
     Inl (Exception (ascii ''Error searching documents: service unavailable''))"
proof -
  note failing =
    index_client_error_styles [where self = failing_client and embedding_dim = 384
      and chunks = "[ascii ''Tax rules'']" and embeddings = "[PList [PFloat 1]]"
      and src = "ascii ''tax.pdf''" and q = "PList [PFloat 1]" and k = 5]
  note interrupted =
    index_client_error_styles [where self = interrupted_search_client and embedding_dim = 384
      and chunks = "[ascii ''Tax rules'']" and embeddings = "[PList [PFloat 1]]"
      and src = "ascii ''tax.pdf''" and q = "PList [PFloat 1]" and k = 5]
  have c: "index_client_create_or_update_index failing_client (index_definition failing_client 384) =
             Inl service_unavailable"
    and d: "index_client_delete_index failing_client (index_name failing_client) = Inl service_unavailable"
    and u: "length [ascii ''Tax rules''] = length [PList [PFloat 1]] \<and>
            search_client_upload_documents failing_client
              (build_documents (ascii ''tax.pdf'') (utcnow_isoformat failing_client @ ascii ''Z'')
                 [ascii ''Tax rules''] [PList [PFloat 1]]) = Inl service_unavailable"
    and s: "search_client_search failing_client (search_request_of (PList [PFloat 1]) 5) =
              Inl service_unavailable"
    by (simp_all add: failing_client_def)
  have i: "search_client_search interrupted_search_client (search_request_of (PList [PFloat 1]) 5) =
             Inr ([Inr example_row] @ Inl service_unavailable # []) \<and>
           (\<forall>r \<in> set [Inr example_row]. \<exists>row hit. r = Inr row \<and> hit_of_row row = Inr hit)"
    by (simp add: interrupted_search_client_def example_client_def example_row_def hit_of_row_def
        getitem_def ascii_def)
  have m: "str_exn service_unavailable = ascii ''service unavailable''"
    by (simp add: service_unavailable_def)
  have p: "ascii ''Error searching documents: '' @ ascii ''service unavailable'' =
           ascii ''Error searching documents: service unavailable''"
    by (simp add: ascii_def)
  from failing c d u s have
    "fst (create_index failing_client 384) = Inr (Failure (str_exn service_unavailable))"
    "fst (delete_index failing_client) = Inr (Failure (str_exn service_unavailable))"
    "fst (upload_documents failing_client [ascii ''Tax rules''] [PList [PFloat 1]] (ascii ''tax.pdf'')) =
       Inr (Failure (str_exn service_unavailable))"
    "fst (search_similar failing_client (PList [PFloat 1]) 5) =
       Inl (Exception (ascii ''Error searching documents: '' @ str_exn service_unavailable))"
    by blast+
  moreover from interrupted i have
    "fst (search_similar interrupted_search_client (PList [PFloat 1]) 5) =
       Inl (Exception (ascii ''Error searching documents: '' @ str_exn service_unavailable))"
    by blast
  ultimately show ?thesis by (simp only: m p simp_thms)
qed

section \<open>Pipeline orchestrator\<close>

lemma extract_text_from_pdf_calls: "snd (extract_text_from_pdf p path) = [OpenPdf path]"
  by (simp add: extract_text_from_pdf_def extract_text_from_pdf_body_def try_except_def split: sum.splits)

lemma chunk_text_calls: "snd (chunk_text p t) = [SplitText t]"
  by (simp add: chunk_text_def try_except_def split: sum.splits)

lemma generate_embeddings_calls: "snd (generate_embeddings p chunks) = [Encode chunks]"
  by (simp add: generate_embeddings_def try_except_def split: sum.splits)

lemma pair_fst_snd: "fst x = a \<Longrightarrow> snd x = b \<Longrightarrow> x = (a, b)"
  by (cases x) simp

lemma extract_result: "fst (extract_text_from_pdf p path) = r \<Longrightarrow> extract_text_from_pdf p path = (r, [OpenPdf path])"
  by (rule pair_fst_snd) (simp_all add: extract_text_from_pdf_calls)

lemma chunk_result: "fst (chunk_text p t) = r \<Longrightarrow> chunk_text p t = (r, [SplitText t])"
  by (rule pair_fst_snd) (simp_all add: chunk_text_calls)

lemma embed_result: "fst (generate_embeddings p chunks) = r \<Longrightarrow> generate_embeddings p chunks = (r, [Encode chunks])"
  by (rule pair_fst_snd) (simp_all add: generate_embeddings_calls)

lemma upload_status_Inr: "upload_status st r = Inl e \<Longrightarrow> (\<exists>a. r = Deleted a) \<or> (\<exists>a b. r = Created a b)"
  by (cases r) simp_all

lemma example_extraction:
  "extract_text_from_pdf example_processor p = (Inr example_text, [OpenPdf p])"
  by (simp add: extract_text_from_pdf_def extract_text_from_pdf_body_def try_except_def strip_def
      example_processor_def example_text_def page_marker_def isspace_def str_nat.simps string_consts)

lemma example_text_nonempty: "example_text \<noteq> []"
  by (simp add: example_text_def string_consts)

text \<open>
  A complete run on the example objects: every stage succeeds and the status lists the
  four stages and the index.
\<close>

lemma example_upload:
  "fst (upload_documents example_client [example_text] [PList [PFloat 1, PFloat 0]] (ascii ''f.pdf'')) =
     Inr (Uploaded 1 (ascii ''cpa-documents'') (ascii ''Uploaded 1 documents successfully''))"
  by (simp add: upload_documents_def upload_documents_body_def try_except_def Let_def
      build_documents_def example_client_def str_nat.simps ascii_def)

lemma example_run:
  "fst (process_pdf example_module (FileObj (ascii ''f.pdf''))) =
     Inr (PAGE_FACING_UP @ ascii '' Processing: f.pdf'' @ NL @ NL @
          HOURGLASS @ ascii '' Extracting text from PDF...'' @ NL @
          CHECK_MARK @ ascii '' Extracted 25 characters'' @ NL @ NL @
          HOURGLASS @ ascii '' Chunking text...'' @ NL @
          CHECK_MARK @ ascii '' Created 1 chunks'' @ NL @ NL @
          HOURGLASS @ ascii '' Generating embeddings...'' @ NL @
          CHECK_MARK @ ascii '' Generated 1 embeddings'' @ NL @ NL @
          HOURGLASS @ ascii '' Uploading to Azure AI Search...'' @ NL @
          CHECK_MARK @ ascii '' Successfully uploaded 1 documents to Azure'' @ NL @
          BAR_CHART @ ascii '' Index: cpa-documents'' @ NL)"
proof -
  obtain calls where up:
    "upload_documents example_client [example_text] [PList [PFloat 1, PFloat 0]] (ascii ''f.pdf'') =
       (Inr (Uploaded 1 (ascii ''cpa-documents'') (ascii ''Uploaded 1 documents successfully'')), calls)"
    using example_upload
    by (cases "upload_documents example_client [example_text] [PList [PFloat 1, PFloat 0]] (ascii ''f.pdf'')")
       simp
  have len: "length example_text = 25"
    by (simp add: example_text_def string_consts)
  show ?thesis
    using example_extraction [of "ascii ''f.pdf''"] example_text_nonempty up
    by (simp add: process_pdf_def process_pdf_body_def try_except_def example_module_def Let_def
        chunk_text_def generate_embeddings_def example_processor_def
        status_uploading_def status_embedding_def status_chunking_def status_extracting_def
        len str_nat.simps string_consts)
qed

text \<open>
  Claim C10. Called with \<open>None\<close>, \<open>process_pdf\<close> returns the status made of the cross
  mark U+274C and \<open>No file uploaded\<close>, and calls neither the processor nor the search
  service.
\<close>

theorem process_pdf_no_file:
  "process_pdf m NoFile = (Inr (CROSS_MARK @ ascii '' No file uploaded''), [])"
  by (simp add: process_pdf_def process_pdf_body_def try_except_def)

text \<open>
  Claim C9. When extraction returns the empty text, the run ends with the status so far
  followed by the error line \<open>Error: Could not extract text from PDF\<close>, and the only
  external call of the run is the reading of the PDF: no chunking, embedding or upload.
\<close>

theorem process_pdf_empty_extraction:
  assumes "fst (extract_text_from_pdf (processor m) path) = Inr []"
  shows "process_pdf m (FileObj path) =
           (Inr (status_extracting (path_name m path) @ CROSS_MARK @
                 ascii '' Error: Could not extract text from PDF''),
            [OpenPdf path])"
  using extract_result [OF assms]
  by (simp add: process_pdf_def process_pdf_body_def try_except_def)

text \<open>
  The theorem at a PDF whose only page has no text.
\<close>

theorem process_pdf_empty_extraction_witness:
  "fst (extract_text_from_pdf (processor blank_pdf_module) (ascii ''scan.pdf'')) = Inr [] \<and>
   process_pdf blank_pdf_module (FileObj (ascii ''scan.pdf'')) =
     (Inr (status_extracting (ascii ''scan.pdf'') @ CROSS_MARK @ ascii '' Error: Could not extract text from PDF''),
      [OpenPdf (ascii ''scan.pdf'')])"
proof -
  have h: "fst (extract_text_from_pdf (processor blank_pdf_module) (ascii ''scan.pdf'')) = Inr []"
    by (simp add: extract_text_from_pdf_def extract_text_from_pdf_body_def try_except_def strip_def
        blank_pdf_module_def example_module_def example_processor_def)
  have n: "path_name blank_pdf_module (ascii ''scan.pdf'') = ascii ''scan.pdf''"
    by (simp add: blank_pdf_module_def example_module_def)
  show ?thesis
    using h process_pdf_empty_extraction [OF h] by (simp add: n)
qed

text \<open>
  Claim C1, as amended. \<open>process_pdf\<close> never raises. When extraction, chunking or
  embedding raises \<open>e\<close>, the run stops there (the calls issued are those up to the failing
  stage) and the status returned is \<open>Error processing file: str(e)\<close> alone, without the
  status lines accumulated so far. When the upload reports a failure, the status returned
  is the accumulated status followed by \<open>Upload failed: error\<close>.
\<close>

theorem process_pdf_failure_handling:
  "(\<exists>s. fst (process_pdf m pdf) = Inr s) \<and>
   (\<forall>e. fst (extract_text_from_pdf (processor m) path) = Inl e \<longrightarrow>
        process_pdf m (FileObj path) =
          (Inr (CROSS_MARK @ ascii '' Error processing file: '' @ str_exn e), [OpenPdf path])) \<and>
   (\<forall>extracted e.
        fst (extract_text_from_pdf (processor m) path) = Inr extracted \<and> extracted \<noteq> [] \<and>
        fst (chunk_text (processor m) extracted) = Inl e \<longrightarrow>
        process_pdf m (FileObj path) =
          (Inr (CROSS_MARK @ ascii '' Error processing file: '' @ str_exn e),
           [OpenPdf path, SplitText extracted])) \<and>
   (\<forall>extracted chunks e.
        fst (extract_text_from_pdf (processor m) path) = Inr extracted \<and> extracted \<noteq> [] \<and>
        fst (chunk_text (processor m) extracted) = Inr chunks \<and>
        fst (generate_embeddings (processor m) chunks) = Inl e \<longrightarrow>
        process_pdf m (FileObj path) =
          (Inr (CROSS_MARK @ ascii '' Error processing file: '' @ str_exn e),
           [OpenPdf path, SplitText extracted, Encode chunks])) \<and>
   (\<forall>extracted chunks embeddings err calls.
        fst (extract_text_from_pdf (processor m) path) = Inr extracted \<and> extracted \<noteq> [] \<and>
        fst (chunk_text (processor m) extracted) = Inr chunks \<and>
        fst (generate_embeddings (processor m) chunks) = Inr embeddings \<and>
        upload_documents (azure_client m) chunks embeddings (path_name m path) = (Inr (Failure err), calls) \<longrightarrow>
        process_pdf m (FileObj path) =
          (Inr (status_uploading (path_name m path) extracted chunks embeddings @
                CROSS_MARK @ ascii '' Upload failed: '' @ err @ NL),
           [OpenPdf path, SplitText extracted, Encode chunks] @ map Remote calls))"
proof (intro conjI allI impI)
  show "\<exists>s. fst (process_pdf m pdf) = Inr s"
    unfolding process_pdf_def by (rule try_except_Inr)
next
  fix e assume "fst (extract_text_from_pdf (processor m) path) = Inl e"
  from extract_result [OF this]
  show "process_pdf m (FileObj path) =
          (Inr (CROSS_MARK @ ascii '' Error processing file: '' @ str_exn e), [OpenPdf path])"
    by (simp add: process_pdf_def process_pdf_body_def try_except_def)
next
  fix extracted e
  assume a: "fst (extract_text_from_pdf (processor m) path) = Inr extracted \<and> extracted \<noteq> [] \<and>
        fst (chunk_text (processor m) extracted) = Inl e"
  then have "extract_text_from_pdf (processor m) path = (Inr extracted, [OpenPdf path])"
    and "chunk_text (processor m) extracted = (Inl e, [SplitText extracted])"
    by (blast intro: extract_result chunk_result)+
  with a show "process_pdf m (FileObj path) =
          (Inr (CROSS_MARK @ ascii '' Error processing file: '' @ str_exn e),
           [OpenPdf path, SplitText extracted])"
    by (simp add: process_pdf_def process_pdf_body_def try_except_def)
next
  fix extracted chunks e
  assume a: "fst (extract_text_from_pdf (processor m) path) = Inr extracted \<and> extracted \<noteq> [] \<and>
        fst (chunk_text (processor m) extracted) = Inr chunks \<and>
        fst (generate_embeddings (processor m) chunks) = Inl e"
  then have "extract_text_from_pdf (processor m) path = (Inr extracted, [OpenPdf path])"
    and "chunk_text (processor m) extracted = (Inr chunks, [SplitText extracted])"
    and "generate_embeddings (processor m) chunks = (Inl e, [Encode chunks])"
    by (blast intro: extract_result chunk_result embed_result)+
  with a show "process_pdf m (FileObj path) =
          (Inr (CROSS_MARK @ ascii '' Error processing file: '' @ str_exn e),
           [OpenPdf path, SplitText extracted, Encode chunks])"
    by (simp add: process_pdf_def process_pdf_body_def try_except_def)
next
  fix extracted chunks embeddings err calls
  assume a: "fst (extract_text_from_pdf (processor m) path) = Inr extracted \<and> extracted \<noteq> [] \<and>
        fst (chunk_text (processor m) extracted) = Inr chunks \<and>
        fst (generate_embeddings (processor m) chunks) = Inr embeddings \<and>
        upload_documents (azure_client m) chunks embeddings (path_name m path) = (Inr (Failure err), calls)"
  then have "extract_text_from_pdf (processor m) path = (Inr extracted, [OpenPdf path])"
    and "chunk_text (processor m) extracted = (Inr chunks, [SplitText extracted])"
    and "generate_embeddings (processor m) chunks = (Inr embeddings, [Encode chunks])"
    by (blast intro: extract_result chunk_result embed_result)+
  with a show "process_pdf m (FileObj path) =
          (Inr (status_uploading (path_name m path) extracted chunks embeddings @
                CROSS_MARK @ ascii '' Upload failed: '' @ err @ NL),
           [OpenPdf path, SplitText extracted, Encode chunks] @ map Remote calls)"
    by (simp add: process_pdf_def process_pdf_body_def try_except_def)
qed

text \<open>
  Claim C1 as stated fails: when the PDF cannot be read, the status returned does not
  start with the accumulated status lines.
\<close>

theorem process_pdf_extraction_failure_drops_status:
  "process_pdf unreadable_pdf_module (FileObj (ascii ''f.pdf'')) =
     (Inr (CROSS_MARK @ ascii '' Error processing file: Error extracting text from PDF: EOF marker not found''),
      [OpenPdf (ascii ''f.pdf'')]) \<and>
   \<not> startswith
       (CROSS_MARK @ ascii '' Error processing file: Error extracting text from PDF: EOF marker not found'')
       (status_extracting (path_name unreadable_pdf_module (ascii ''f.pdf'')))"
  by (simp add: process_pdf_def process_pdf_body_def try_except_def extract_text_from_pdf_def
      extract_text_from_pdf_body_def unreadable_pdf_module_def example_module_def example_processor_def
      status_extracting_def string_consts)

text \<open>
  The amended theorem at a failure of each stage.
\<close>

theorem process_pdf_failure_handling_witness:
  "process_pdf unreadable_pdf_module (FileObj (ascii ''f.pdf'')) =
     (Inr (CROSS_MARK @ ascii '' Error processing file: Error extracting text from PDF: EOF marker not found''),
      [OpenPdf (ascii ''f.pdf'')]) \<and>
   process_pdf failing_splitter_module (FileObj (ascii ''f.pdf'')) =
     (Inr (CROSS_MARK @ ascii '' Error processing file: Error chunking text: bad separator''),
      [OpenPdf (ascii ''f.pdf''), SplitText example_text]) \<and>
   process_pdf failing_model_module (FileObj (ascii ''f.pdf'')) =
     (Inr (CROSS_MARK @ ascii '' Error processing file: Error generating embeddings: out of memory''),
      [OpenPdf (ascii ''f.pdf''), SplitText example_text, Encode [example_text]]) \<and>
   fst (process_pdf failing_upload_module (FileObj (ascii ''f.pdf''))) =
     Inr (status_uploading (ascii ''f.pdf'') example_text [example_text] [PList [PFloat 1, PFloat 0]] @
          CROSS_MARK @ ascii '' Upload failed: service unavailable'' @ NL)"
proof -
  let ?f = "ascii ''f.pdf''"
  have x1: "fst (extract_text_from_pdf (processor unreadable_pdf_module) ?f) =
              Inl (Exception (ascii ''Error extracting text from PDF: EOF marker not found''))"
    by (simp add: extract_text_from_pdf_def extract_text_from_pdf_body_def try_except_def
        unreadable_pdf_module_def example_module_def example_processor_def ascii_def)
  have r1: "process_pdf unreadable_pdf_module (FileObj ?f) =
     (Inr (CROSS_MARK @ ascii '' Error processing file: Error extracting text from PDF: EOF marker not found''),
      [OpenPdf ?f])"
    using process_pdf_failure_handling [where m = unreadable_pdf_module and path = ?f] x1
    by (simp add: ascii_def)
  have x2: "fst (extract_text_from_pdf (processor failing_splitter_module) ?f) = Inr example_text \<and>
            example_text \<noteq> [] \<and>
            fst (chunk_text (processor failing_splitter_module) example_text) =
              Inl (Exception (ascii ''Error chunking text: bad separator''))"
    using example_extraction [of ?f] example_text_nonempty
    by (simp add: extract_text_from_pdf_def extract_text_from_pdf_body_def chunk_text_def try_except_def
        failing_splitter_module_def example_module_def example_processor_def ascii_def)
  have r2: "process_pdf failing_splitter_module (FileObj ?f) =
     (Inr (CROSS_MARK @ ascii '' Error processing file: Error chunking text: bad separator''),
      [OpenPdf ?f, SplitText example_text])"
    using process_pdf_failure_handling [where m = failing_splitter_module and path = ?f] x2
    by (simp add: ascii_def)
  have x3: "fst (extract_text_from_pdf (processor failing_model_module) ?f) = Inr example_text \<and>
            example_text \<noteq> [] \<and>
            fst (chunk_text (processor failing_model_module) example_text) = Inr [example_text] \<and>
            fst (generate_embeddings (processor failing_model_module) [example_text]) =
              Inl (Exception (ascii ''Error generating embeddings: out of memory''))"
    using example_extraction [of ?f] example_text_nonempty
    by (simp add: extract_text_from_pdf_def extract_text_from_pdf_body_def chunk_text_def
        generate_embeddings_def try_except_def
        failing_model_module_def example_module_def example_processor_def ascii_def)
  have r3: "process_pdf failing_model_module (FileObj ?f) =
     (Inr (CROSS_MARK @ ascii '' Error processing file: Error generating embeddings: out of memory''),
      [OpenPdf ?f, SplitText example_text, Encode [example_text]])"
    using process_pdf_failure_handling [where m = failing_model_module and path = ?f] x3
    by (simp add: ascii_def)
  let ?calls = "snd (upload_documents failing_client [example_text] [PList [PFloat 1, PFloat 0]] ?f)"
  have x4: "fst (extract_text_from_pdf (processor failing_upload_module) ?f) = Inr example_text \<and>
            example_text \<noteq> [] \<and>
            fst (chunk_text (processor failing_upload_module) example_text) = Inr [example_text] \<and>
            fst (generate_embeddings (processor failing_upload_module) [example_text]) =
              Inr [PList [PFloat 1, PFloat 0]] \<and>
            upload_documents (azure_client failing_upload_module) [example_text] [PList [PFloat 1, PFloat 0]]
              (path_name failing_upload_module ?f) =
              (Inr (Failure (ascii ''service unavailable'')), ?calls)"
    using example_extraction [of ?f] example_text_nonempty
    by (simp add: chunk_text_def generate_embeddings_def try_except_def upload_documents_def
        upload_documents_body_def Let_def service_unavailable_def failing_client_def
        failing_upload_module_def example_module_def example_processor_def)
  from process_pdf_failure_handling [where m = failing_upload_module and path = ?f] x4
  have "process_pdf failing_upload_module (FileObj ?f) =
     (Inr (status_uploading (path_name failing_upload_module ?f) example_text [example_text]
             [PList [PFloat 1, PFloat 0]] @
           CROSS_MARK @ ascii '' Upload failed: '' @ ascii ''service unavailable'' @ NL),
      [OpenPdf ?f, SplitText example_text, Encode [example_text]] @ map Remote ?calls)"
    by blast
  then have r4: "fst (process_pdf failing_upload_module (FileObj ?f)) =
     Inr (status_uploading ?f example_text [example_text] [PList [PFloat 1, PFloat 0]] @
          CROSS_MARK @ ascii '' Upload failed: service unavailable'' @ NL)"
    by (simp add: failing_upload_module_def example_module_def ascii_def)
  from r1 r2 r3 r4 show ?thesis by blast
qed

section \<open>Embedding microservice\<close>

text \<open>
  The substring test of \<open>in\<close> on strings finds exactly the strings that contain the key.
\<close>

lemma startswith_iff: "startswith s p \<longleftrightarrow> (\<exists>post. s = p @ post)"
  by (induction s p rule: startswith.induct) auto

lemma str_contains_iff: "str_contains s sub \<longleftrightarrow> (\<exists>pre post. s = pre @ sub @ post)"
proof (induction s)
  case Nil
  then show ?case by auto
next
  case (Cons c s)
  show ?case
  proof
    assume "str_contains (c # s) sub"
    then consider "startswith (c # s) sub" | "str_contains s sub" by auto
    then show "\<exists>pre post. c # s = pre @ sub @ post"
    proof cases
      case 1
      then obtain post where "c # s = sub @ post" by (auto simp: startswith_iff)
      then have "c # s = [] @ sub @ post" by simp
      then show ?thesis by blast
    next
      case 2
      with Cons.IH obtain pre post where "s = pre @ sub @ post" by blast
      then have "c # s = (c # pre) @ sub @ post" by simp
      then show ?thesis by blast
    qed
  next
    assume "\<exists>pre post. c # s = pre @ sub @ post"
    then obtain pre post where eq: "c # s = pre @ sub @ post" by blast
    show "str_contains (c # s) sub"
    proof (cases pre)
      case Nil
      with eq have "startswith (c # s) sub" by (auto simp: startswith_iff)
      then show ?thesis by simp
    next
      case (Cons a pre')
      with eq have "s = pre' @ sub @ post" by simp
      with Cons.IH have "str_contains s sub" by blast
      then show ?thesis by simp
    qed
  qed
qed

text \<open>
  Claim C8, as amended. \<open>/embed\<close> answers 400 with \<open>{"error": "Missing text field"}\<close> when
  the parsed body is null, false, zero or empty, is an object without the key \<open>text\<close>, is an
  array without the element \<open>"text"\<close>, or is a string that does not contain \<open>text\<close>. It answers
  400 with \<open>{"error": "Text must be a non-empty string"}\<close> when the body is an object whose
  \<open>text\<close> is empty or no string. \<open>/embed/batch\<close> answers 400 with
  \<open>{"error": "texts must be a non-empty array"}\<close> when the body is an object whose \<open>texts\<close> is
  an empty list or no list. In each case the model is not called.
\<close>

theorem embed_rejects_invalid_bodies:
  "(data \<in> {PNone, PBool False, PInt 0, PFloat 0, PStr [], PList [], PDict []} \<longrightarrow>
      embed svc (Inr data) =
        (Inr (PDict [(ascii ''error'', PStr (ascii ''Missing text field''))], 400), [])) \<and>
   (ascii ''text'' \<notin> fst ` set kvs \<longrightarrow>
      embed svc (Inr (PDict kvs)) =
        (Inr (PDict [(ascii ''error'', PStr (ascii ''Missing text field''))], 400), [])) \<and>
   (PStr (ascii ''text'') \<notin> set xs \<longrightarrow>
      embed svc (Inr (PList xs)) =
        (Inr (PDict [(ascii ''error'', PStr (ascii ''Missing text field''))], 400), [])) \<and>
   ((\<forall>pre post. s \<noteq> pre @ ascii ''text'' @ post) \<longrightarrow>
      embed svc (Inr (PStr s)) =
        (Inr (PDict [(ascii ''error'', PStr (ascii ''Missing text field''))], 400), [])) \<and>
   (\<forall>v. map_of kvs (ascii ''text'') = Some v \<and> (v = PStr [] \<or> (\<forall>t. v \<noteq> PStr t)) \<longrightarrow>
      embed svc (Inr (PDict kvs)) =
        (Inr (PDict [(ascii ''error'', PStr (ascii ''Text must be a non-empty string''))], 400), [])) \<and>
   (\<forall>v. map_of kvs (ascii ''texts'') = Some v \<and> (v = PList [] \<or> (\<forall>ts. v \<noteq> PList ts)) \<longrightarrow>
      embed_batch svc (Inr (PDict kvs)) =
        (Inr (PDict [(ascii ''error'', PStr (ascii ''texts must be a non-empty array''))], 400), []))"
proof (intro conjI allI impI)
  assume "data \<in> {PNone, PBool False, PInt 0, PFloat 0, PStr [], PList [], PDict []}"
  then have "\<not> truthy data" by auto
  then show "embed svc (Inr data) =
        (Inr (PDict [(ascii ''error'', PStr (ascii ''Missing text field''))], 400), [])"
    by (simp add: embed_def embed_body_def missing_field_def try_except_def error_response_def)
next
  assume "ascii ''text'' \<notin> fst ` set kvs"
  then show "embed svc (Inr (PDict kvs)) =
        (Inr (PDict [(ascii ''error'', PStr (ascii ''Missing text field''))], 400), [])"
    by (simp add: embed_def embed_body_def missing_field_def try_except_def error_response_def)
next
  assume "PStr (ascii ''text'') \<notin> set xs"
  then show "embed svc (Inr (PList xs)) =
        (Inr (PDict [(ascii ''error'', PStr (ascii ''Missing text field''))], 400), [])"
    by (simp add: embed_def embed_body_def missing_field_def try_except_def error_response_def)
next
  assume "\<forall>pre post. s \<noteq> pre @ ascii ''text'' @ post"
  then have "\<not> str_contains s (ascii ''text'')" by (simp add: str_contains_iff)
  then show "embed svc (Inr (PStr s)) =
        (Inr (PDict [(ascii ''error'', PStr (ascii ''Missing text field''))], 400), [])"
    by (simp add: embed_def embed_body_def missing_field_def try_except_def error_response_def)
next
  fix v assume a: "map_of kvs (ascii ''text'') = Some v \<and> (v = PStr [] \<or> (\<forall>t. v \<noteq> PStr t))"
  then have "ascii ''text'' \<in> fst ` set kvs" and "kvs \<noteq> []"
    by (auto dest: map_of_SomeD intro: rev_image_eqI)
  moreover from a have "invalid_text v" by (cases v) (auto simp: invalid_text_def)
  ultimately show "embed svc (Inr (PDict kvs)) =
        (Inr (PDict [(ascii ''error'', PStr (ascii ''Text must be a non-empty string''))], 400), [])"
    using a
    by (simp add: embed_def embed_body_def missing_field_def try_except_def getitem_def error_response_def)
next
  fix v assume a: "map_of kvs (ascii ''texts'') = Some v \<and> (v = PList [] \<or> (\<forall>ts. v \<noteq> PList ts))"
  then have "ascii ''texts'' \<in> fst ` set kvs" and "kvs \<noteq> []"
    by (auto dest: map_of_SomeD intro: rev_image_eqI)
  moreover from a have "invalid_texts v" by (cases v) (auto simp: invalid_texts_def)
  ultimately show "embed_batch svc (Inr (PDict kvs)) =
        (Inr (PDict [(ascii ''error'', PStr (ascii ''texts must be a non-empty array''))], 400), [])"
    using a
    by (simp add: embed_batch_def embed_batch_body_def missing_field_def try_except_def getitem_def
        error_response_def)
qed

text \<open>
  Claim C8 as stated fails: the body \<open>5\<close> is a JSON body without a \<open>text\<close> field, the
  membership test of the guard raises \<open>TypeError\<close> on it, and \<open>/embed\<close> answers 500 with the
  message of that error.
\<close>

theorem embed_number_body_internal_error:
  "embed example_service (Inr (PInt 5)) =
     (Inr (PDict [(ascii ''error'',
                   PStr (ascii ''argument of type '' @ QUOTE @ ascii ''int'' @ QUOTE @ ascii '' is not iterable''))],
           500),
      [])"
  by (simp add: embed_def embed_body_def missing_field_def try_except_def error_response_def)

text \<open>
  The amended theorem at the bodies \<open>null\<close>, \<open>{"name": "Audit"}\<close>, \<open>[1]\<close>, \<open>"tax"\<close>,
  \<open>{"text": ""}\<close>, \<open>{"text": 7}\<close>, \<open>{"texts": []}\<close> and \<open>{"texts": "Audit"}\<close>.
\<close>

theorem embed_rejects_invalid_bodies_witness:
  "embed example_service (Inr PNone) =
     (Inr (PDict [(ascii ''error'', PStr (ascii ''Missing text field''))], 400), []) \<and>
   embed example_service (Inr (PDict [(ascii ''name'', PStr (ascii ''Audit''))])) =
     (Inr (PDict [(ascii ''error'', PStr (ascii ''Missing text field''))], 400), []) \<and>
   embed example_service (Inr (PList [PInt 1])) =
     (Inr (PDict [(ascii ''error'', PStr (ascii ''Missing text field''))], 400), []) \<and>
   embed example_service (Inr (PStr (ascii ''tax''))) =
     (Inr (PDict [(ascii ''error'', PStr (ascii ''Missing text field''))], 400), []) \<and>
   embed example_service (Inr (PDict [(ascii ''text'', PStr [])])) =
     (Inr (PDict [(ascii ''error'', PStr (ascii ''Text must be a non-empty string''))], 400), []) \<and>
   embed example_service (Inr (PDict [(ascii ''text'', PInt 7)])) =
     (Inr (PDict [(ascii ''error'', PStr (ascii ''Text must be a non-empty string''))], 400), []) \<and>
   embed_batch example_service (Inr (PDict [(ascii ''texts'', PList [])])) =
     (Inr (PDict [(ascii ''error'', PStr (ascii ''texts must be a non-empty array''))], 400), []) \<and>
   embed_batch example_service (Inr (PDict [(ascii ''texts'', PStr (ascii ''Audit''))])) =
     (Inr (PDict [(ascii ''error'', PStr (ascii ''texts must be a non-empty array''))], 400), [])"
proof -
  have h1: "PNone \<in> {PNone, PBool False, PInt 0, PFloat 0, PStr [], PList [], PDict []}"
    by simp
  have h2: "ascii ''text'' \<notin> fst ` set [(ascii ''name'', PStr (ascii ''Audit''))]"
    by (simp add: ascii_def)
  have h3: "PStr (ascii ''text'') \<notin> set [PInt 1]"
    by simp
  have h4: "\<forall>pre post. ascii ''tax'' \<noteq> pre @ ascii ''text'' @ post"
    using str_contains_iff [of "ascii ''tax''" "ascii ''text''"] by (simp add: ascii_def)
  have h5: "map_of [(ascii ''text'', PStr [])] (ascii ''text'') = Some (PStr []) \<and>
            (PStr [] = PStr [] \<or> (\<forall>t. PStr [] \<noteq> PStr t))"
    by simp
  have h6: "map_of [(ascii ''text'', PInt 7)] (ascii ''text'') = Some (PInt 7) \<and>
            (PInt 7 = PStr [] \<or> (\<forall>t. PInt 7 \<noteq> PStr t))"
    by simp
  have h7: "map_of [(ascii ''texts'', PList [])] (ascii ''texts'') = Some (PList []) \<and>
            (PList [] = PList [] \<or> (\<forall>ts. PList [] \<noteq> PList ts))"
    by simp
  have h8: "map_of [(ascii ''texts'', PStr (ascii ''Audit''))] (ascii ''texts'') = Some (PStr (ascii ''Audit'')) \<and>
            (PStr (ascii ''Audit'') = PList [] \<or> (\<forall>ts. PStr (ascii ''Audit'') \<noteq> PList ts))"
    by simp
  from h1 embed_rejects_invalid_bodies [where data = PNone and svc = example_service]
  have r1: "embed example_service (Inr PNone) =
     (Inr (PDict [(ascii ''error'', PStr (ascii ''Missing text field''))], 400), [])"
    by blast
  from h2 embed_rejects_invalid_bodies
    [where kvs = "[(ascii ''name'', PStr (ascii ''Audit''))]" and svc = example_service]
  have r2: "embed example_service (Inr (PDict [(ascii ''name'', PStr (ascii ''Audit''))])) =
     (Inr (PDict [(ascii ''error'', PStr (ascii ''Missing text field''))], 400), [])"
    by blast
  from h3 embed_rejects_invalid_bodies [where xs = "[PInt 1]" and svc = example_service]
  have r3: "embed example_service (Inr (PList [PInt 1])) =
     (Inr (PDict [(ascii ''error'', PStr (ascii ''Missing text field''))], 400), [])"
    by blast
  from h4 embed_rejects_invalid_bodies [where s = "ascii ''tax''" and svc = example_service]
  have r4: "embed example_service (Inr (PStr (ascii ''tax''))) =
     (Inr (PDict [(ascii ''error'', PStr (ascii ''Missing text field''))], 400), [])"
    by blast
  from h5 embed_rejects_invalid_bodies [where kvs = "[(ascii ''text'', PStr [])]" and svc = example_service]
  have r5: "embed example_service (Inr (PDict [(ascii ''text'', PStr [])])) =
     (Inr (PDict [(ascii ''error'', PStr (ascii ''Text must be a non-empty string''))], 400), [])"
    by blast
  from h6 embed_rejects_invalid_bodies [where kvs = "[(ascii ''text'', PInt 7)]" and svc = example_service]
  have r6: "embed example_service (Inr (PDict [(ascii ''text'', PInt 7)])) =
     (Inr (PDict [(ascii ''error'', PStr (ascii ''Text must be a non-empty string''))], 400), [])"
    by blast
  from h7 embed_rejects_invalid_bodies [where kvs = "[(ascii ''texts'', PList [])]" and svc = example_service]
  have r7: "embed_batch example_service (Inr (PDict [(ascii ''texts'', PList [])])) =
     (Inr (PDict [(ascii ''error'', PStr (ascii ''texts must be a non-empty array''))], 400), [])"
    by blast
  from h8 embed_rejects_invalid_bodies
    [where kvs = "[(ascii ''texts'', PStr (ascii ''Audit''))]" and svc = example_service]
  have r8: "embed_batch example_service (Inr (PDict [(ascii ''texts'', PStr (ascii ''Audit''))])) =
     (Inr (PDict [(ascii ''error'', PStr (ascii ''texts must be a non-empty array''))], 400), [])"
    by blast
  from r1 r2 r3 r4 r5 r6 r7 r8 show ?thesis by blast
qed

text \<open>
  A string body that contains \<open>text\<close> passes the membership test and fails at the
  subscript \<open>data['text']\<close>; the handler reports that as an internal error as well.
\<close>

lemma embed_string_body:
  "embed svc (Inr (PStr (ascii ''context''))) =
     (Inr (PDict [(ascii ''error'',
                   PStr (ascii ''string indices must be integers, not '' @ QUOTE @ ascii ''str'' @ QUOTE))],
           500),
      [])"
  by (simp add: embed_def embed_body_def missing_field_def try_except_def error_response_def ascii_def)

end
